theory Spec2Isabelle
  imports Complex_Main
begin

section \<open>The AST (package ast)\<close>

text \<open>
  A source location is a byte offset. A node that has never been given a location has
  none (\<open>None\<close>). The inferred static type of a node is one of the three
  \<open>reflect.Type\<close> values the optimizer knows.
\<close>

type_synonym location = nat

datatype nodeType = integerType | floatType | stringType

record base =
  loc :: "location option"
  nodeType :: "nodeType option"

definition base0 :: base where
  "base0 = \<lparr>loc = None, nodeType = None\<rparr>"

text \<open>
  Go's \<open>any\<close> values that a \<open>ConstantNode\<close> can hold. The platform \<open>int\<close> is an
  \<open>int\<close> here and the wrap-around of its arithmetic is written out (\<open>wrapInt\<close>);
  \<open>float64\<close> is the type parameter \<open>'f\<close>, its arithmetic is passed to the
  optimizer as a record of operations.
\<close>

datatype 'f val =
    VNil
  | VBool bool
  | VInt int
  | VFloat 'f
  | VString string
  | VSlice "'f val list"

text \<open>
  The node variants. \<open>NoNode\<close> is Go's nil \<open>ast.Node\<close> (an absent slice bound, or
  what the parser returns after some errors).
\<close>

datatype 'f node =
    NoNode
  | NilNode base
  | IdentifierNode base string
  | IntegerNode base int
  | FloatNode base 'f
  | BoolNode base bool
  | StringNode base string
  | ConstantNode base "'f val"
  | UnaryNode base string "'f node"
  | BinaryNode base string "'f node" "'f node"
  | ChainNode base "'f node"
  | MemberNode base "'f node" "'f node" bool
  | SliceNode base "'f node" "'f node" "'f node"
  | CallNode base "'f node" "'f node list"
  | BuiltinNode base string "'f node list"
  | ClosureNode base "'f node"
  | PointerNode base string
  | ConditionalNode base "'f node" "'f node" "'f node"
  | VariableDeclaratorNode base string "'f node" "'f node"
  | ArrayNode base "'f node list"
  | MapNode base "'f node list"
  | PairNode base "'f node" "'f node"

fun base_of :: "'f node \<Rightarrow> base" where
  "base_of NoNode = base0"
| "base_of (NilNode b) = b"
| "base_of (IdentifierNode b _) = b"
| "base_of (IntegerNode b _) = b"
| "base_of (FloatNode b _) = b"
| "base_of (BoolNode b _) = b"
| "base_of (StringNode b _) = b"
| "base_of (ConstantNode b _) = b"
| "base_of (UnaryNode b _ _) = b"
| "base_of (BinaryNode b _ _ _) = b"
| "base_of (ChainNode b _) = b"
| "base_of (MemberNode b _ _ _) = b"
| "base_of (SliceNode b _ _ _) = b"
| "base_of (CallNode b _ _) = b"
| "base_of (BuiltinNode b _ _) = b"
| "base_of (ClosureNode b _) = b"
| "base_of (PointerNode b _) = b"
| "base_of (ConditionalNode b _ _ _) = b"
| "base_of (VariableDeclaratorNode b _ _ _) = b"
| "base_of (ArrayNode b _) = b"
| "base_of (MapNode b _) = b"
| "base_of (PairNode b _ _) = b"

fun map_base :: "(base \<Rightarrow> base) \<Rightarrow> 'f node \<Rightarrow> 'f node" where
  "map_base g NoNode = NoNode"
| "map_base g (NilNode b) = NilNode (g b)"
| "map_base g (IdentifierNode b s) = IdentifierNode (g b) s"
| "map_base g (IntegerNode b i) = IntegerNode (g b) i"
| "map_base g (FloatNode b x) = FloatNode (g b) x"
| "map_base g (BoolNode b v) = BoolNode (g b) v"
| "map_base g (StringNode b s) = StringNode (g b) s"
| "map_base g (ConstantNode b v) = ConstantNode (g b) v"
| "map_base g (UnaryNode b op n) = UnaryNode (g b) op n"
| "map_base g (BinaryNode b op l r) = BinaryNode (g b) op l r"
| "map_base g (ChainNode b n) = ChainNode (g b) n"
| "map_base g (MemberNode b n p opt) = MemberNode (g b) n p opt"
| "map_base g (SliceNode b n from to) = SliceNode (g b) n from to"
| "map_base g (CallNode b c args) = CallNode (g b) c args"
| "map_base g (BuiltinNode b name args) = BuiltinNode (g b) name args"
| "map_base g (ClosureNode b n) = ClosureNode (g b) n"
| "map_base g (PointerNode b name) = PointerNode (g b) name"
| "map_base g (ConditionalNode b c e1 e2) = ConditionalNode (g b) c e1 e2"
| "map_base g (VariableDeclaratorNode b name v e) = VariableDeclaratorNode (g b) name v e"
| "map_base g (ArrayNode b ns) = ArrayNode (g b) ns"
| "map_base g (MapNode b ps) = MapNode (g b) ps"
| "map_base g (PairNode b k v) = PairNode (g b) k v"

definition Location :: "'f node \<Rightarrow> location option" where
  "Location n = loc (base_of n)"

definition SetLocation :: "'f node \<Rightarrow> location option \<Rightarrow> 'f node" where
  "SetLocation n l = map_base (\<lambda>b. b\<lparr>loc := l\<rparr>) n"

definition SetType :: "'f node \<Rightarrow> nodeType \<Rightarrow> 'f node" where
  "SetType n t = map_base (\<lambda>b. b\<lparr>nodeType := Some t\<rparr>) n"

text \<open>
  Modelled from the spec: \<open>ast.Patch\<close> is not among the source files. Section 4.1:
  ``\<open>Patch(handle, new)\<close> overwrites the slot and, if the new node lacks a location,
  inherits the old node's location.'' The value returned is the new content of the slot.
\<close>

definition Patch :: "'f node \<Rightarrow> 'f node \<Rightarrow> 'f node" where
  "Patch old new = (if Location new = None then SetLocation new (Location old) else new)"

section \<open>Errors and panics\<close>

text \<open>
  A Go \<open>error\<close> value: a \<open>*file.Error\<close> (location and message), or any other error
  (for instance one made by \<open>errors.New\<close>), known by its message only. A panic that
  nothing recovers ends the call; it is the \<open>Inl\<close> of a sum.
\<close>

datatype error =
    FileError "location option" string
  | OtherError string

type_synonym 'a panics = "string + 'a"

section \<open>Arithmetic of the platform\<close>

text \<open>
  Go's \<open>int\<close> is \<open>w\<close> bits wide (32 or 64); \<open>+\<close>, \<open>-\<close>, \<open>*\<close> and unary minus wrap
  around. \<open>%\<close> truncates towards zero: the remainder has the sign of the dividend.
\<close>

definition wrapInt :: "nat \<Rightarrow> int \<Rightarrow> int" where
  "wrapInt w x = (x + 2 ^ (w - 1)) mod 2 ^ w - 2 ^ (w - 1)"

definition go_rem :: "int \<Rightarrow> int \<Rightarrow> int" where
  "go_rem a b = sgn a * (\<bar>a\<bar> mod \<bar>b\<bar>)"

record 'f float64_ops =
  fneg :: "'f \<Rightarrow> 'f"
  fadd :: "'f \<Rightarrow> 'f \<Rightarrow> 'f"
  fsub :: "'f \<Rightarrow> 'f \<Rightarrow> 'f"
  fmul :: "'f \<Rightarrow> 'f \<Rightarrow> 'f"
  fdiv :: "'f \<Rightarrow> 'f \<Rightarrow> 'f"
  Pow :: "'f \<Rightarrow> 'f \<Rightarrow> 'f"
  float64 :: "int \<Rightarrow> 'f"

section \<open>The fold pass (optimizer/fold.go)\<close>

record fold_v =
  applied :: bool
  err :: "error option"

definition fold0 :: fold_v where
  "fold0 = \<lparr>applied = False, err = None\<rparr>"

fun toString :: "'f node \<Rightarrow> string option" where
  "toString (StringNode b s) = Some s"
| "toString _ = None"

fun toInteger :: "'f node \<Rightarrow> int option" where
  "toInteger (IntegerNode b i) = Some i"
| "toInteger _ = None"

fun toFloat :: "'f node \<Rightarrow> 'f option" where
  "toFloat (FloatNode b x) = Some x"
| "toFloat _ = None"

fun toBool :: "'f node \<Rightarrow> bool option" where
  "toBool (BoolNode b v) = Some v"
| "toBool _ = None"

text \<open>
  The result of one \<open>Visit\<close>: the replacement put into the slot (\<open>None\<close> when the
  visitor left the node alone) and the visitor's new state.
\<close>

type_synonym ('f, 's) visited = "('f node option \<times> 's) panics"

definition skip :: "'s \<Rightarrow> ('f, 's) visited" where
  "skip st = Inr (None, st)"

definition patch :: "fold_v \<Rightarrow> 'f node \<Rightarrow> 'f node \<Rightarrow> ('f, fold_v) visited" where
  "patch st old newNode = Inr (Some (Patch old newNode), st\<lparr>applied := True\<rparr>)"

fun typeOfLiteral :: "'f node \<Rightarrow> nodeType option" where
  "typeOfLiteral (IntegerNode b i) = Some integerType"
| "typeOfLiteral (FloatNode b x) = Some floatType"
| "typeOfLiteral (StringNode b s) = Some stringType"
| "typeOfLiteral _ = None"

definition patchWithType :: "fold_v \<Rightarrow> 'f node \<Rightarrow> 'f node \<Rightarrow> ('f, fold_v) visited" where
  "patchWithType st old newNode =
     (case typeOfLiteral newNode of
        Some t \<Rightarrow> Inr (Some (SetType (Patch old newNode) t), st\<lparr>applied := True\<rparr>)
      | None \<Rightarrow> Inl ''unknown type'')"

text \<open>
  The four numeric blocks of \<open>+\<close>, \<open>-\<close>, \<open>*\<close>, \<open>/\<close>, \<open>**\<close> and \<open>^\<close>: integer with
  integer, integer with float, float with integer, float with float. The blocks test the
  operands of the node as it was when \<open>Visit\<close> was entered, so at most one of them
  patches. \<open>ii\<close> builds the node for two integers, \<open>ff\<close> the float of two floats.
\<close>

definition numeric :: "'f float64_ops \<Rightarrow> fold_v \<Rightarrow> 'f node \<Rightarrow> 'f node \<Rightarrow> 'f node \<Rightarrow>
    (int \<Rightarrow> int \<Rightarrow> 'f node) \<Rightarrow> ('f \<Rightarrow> 'f \<Rightarrow> 'f) \<Rightarrow> ('f, fold_v) visited option" where
  "numeric F st old l r ii ff =
     (case (toInteger l, toInteger r) of
        (Some a, Some b) \<Rightarrow> Some (patchWithType st old (ii a b))
      | _ \<Rightarrow>
     (case (toInteger l, toFloat r) of
        (Some a, Some b) \<Rightarrow> Some (patchWithType st old (FloatNode base0 (ff (float64 F a) b)))
      | _ \<Rightarrow>
     (case (toFloat l, toInteger r) of
        (Some a, Some b) \<Rightarrow> Some (patchWithType st old (FloatNode base0 (ff a (float64 F b))))
      | _ \<Rightarrow>
     (case (toFloat l, toFloat r) of
        (Some a, Some b) \<Rightarrow> Some (patchWithType st old (FloatNode base0 (ff a b)))
      | _ \<Rightarrow> None))))"

definition orSkip :: "'s \<Rightarrow> ('f, 's) visited option \<Rightarrow> ('f, 's) visited" where
  "orSkip st r = (case r of Some v \<Rightarrow> v | None \<Rightarrow> skip st)"

definition fold_Unary :: "'f float64_ops \<Rightarrow> nat \<Rightarrow> fold_v \<Rightarrow> 'f node \<Rightarrow> string \<Rightarrow> 'f node \<Rightarrow>
    ('f, fold_v) visited" where
  "fold_Unary F w st old op n =
     (if op = ''-'' then
        (case n of
           IntegerNode b i \<Rightarrow> patchWithType st old (IntegerNode base0 (wrapInt w (- i)))
         | FloatNode b x \<Rightarrow> patchWithType st old (FloatNode base0 (fneg F x))
         | _ \<Rightarrow> skip st)
      else if op = ''+'' then
        (case n of
           IntegerNode b i \<Rightarrow> patchWithType st old (IntegerNode base0 i)
         | FloatNode b x \<Rightarrow> patchWithType st old (FloatNode base0 x)
         | _ \<Rightarrow> skip st)
      else if op = ''!'' \<or> op = ''not'' then
        (case toBool n of
           Some a \<Rightarrow> patch st old (BoolNode base0 (\<not> a))
         | None \<Rightarrow> skip st)
      else skip st)"

definition fold_Binary :: "'f float64_ops \<Rightarrow> nat \<Rightarrow> fold_v \<Rightarrow> 'f node \<Rightarrow> string \<Rightarrow> 'f node \<Rightarrow>
    'f node \<Rightarrow> ('f, fold_v) visited" where
  "fold_Binary F w st old op l r =
     (if op = ''+'' then
        (case numeric F st old l r (\<lambda>a b. IntegerNode base0 (wrapInt w (a + b))) (fadd F) of
           Some v \<Rightarrow> v
         | None \<Rightarrow>
             (case (toString l, toString r) of
                (Some a, Some b) \<Rightarrow> patch st old (StringNode base0 (a @ b))
              | _ \<Rightarrow> skip st))
      else if op = ''-'' then
        orSkip st (numeric F st old l r (\<lambda>a b. IntegerNode base0 (wrapInt w (a - b))) (fsub F))
      else if op = ''*'' then
        orSkip st (numeric F st old l r (\<lambda>a b. IntegerNode base0 (wrapInt w (a * b))) (fmul F))
      else if op = ''/'' then
        orSkip st (numeric F st old l r
          (\<lambda>a b. FloatNode base0 (fdiv F (float64 F a) (float64 F b))) (fdiv F))
      else if op = ''%'' then
        (case (l, r) of
           (IntegerNode ba a, IntegerNode bb b) \<Rightarrow>
             if b = 0 then
               Inr (None, st\<lparr>err := Some (FileError (Location old) ''integer divide by zero'')\<rparr>)
             else patch st old (IntegerNode base0 (go_rem a b))
         | _ \<Rightarrow> skip st)
      else if op = ''**'' \<or> op = ''^'' then
        orSkip st (numeric F st old l r
          (\<lambda>a b. FloatNode base0 (Pow F (float64 F a) (float64 F b))) (Pow F))
      else if op = ''and'' \<or> op = ''&&'' then
        (let a = toBool l; b = toBool r in
         if a = Some True then patch st old r
         else if b = Some True then patch st old l
         else if a = Some False \<or> b = Some False then patch st old (BoolNode base0 False)
         else skip st)
      else if op = ''or'' \<or> op = ''||'' then
        (let a = toBool l; b = toBool r in
         if a = Some False then patch st old r
         else if b = Some False then patch st old l
         else if a = Some True \<or> b = Some True then patch st old (BoolNode base0 True)
         else skip st)
      else if op = ''=='' then
        (case (toInteger l, toInteger r) of
           (Some a, Some b) \<Rightarrow> patch st old (BoolNode base0 (a = b))
         | _ \<Rightarrow>
             (case (toString l, toString r) of
                (Some a, Some b) \<Rightarrow> patch st old (BoolNode base0 (a = b))
              | _ \<Rightarrow>
                  (case (toBool l, toBool r) of
                     (Some a, Some b) \<Rightarrow> patch st old (BoolNode base0 (a = b))
                   | _ \<Rightarrow> skip st)))
      else skip st)"

text \<open>The value of an array element that is an integer, float, string or bool literal.\<close>

fun literalValue :: "'f node \<Rightarrow> 'f val option" where
  "literalValue (IntegerNode b i) = Some (VInt i)"
| "literalValue (FloatNode b x) = Some (VFloat x)"
| "literalValue (StringNode b s) = Some (VString s)"
| "literalValue (BoolNode b v) = Some (VBool v)"
| "literalValue _ = None"

fun literalValues :: "'f node list \<Rightarrow> 'f val list option" where
  "literalValues [] = Some []"
| "literalValues (a # as) =
     (case literalValue a of
        None \<Rightarrow> None
      | Some v \<Rightarrow> (case literalValues as of None \<Rightarrow> None | Some vs \<Rightarrow> Some (v # vs)))"

definition fold_Array :: "fold_v \<Rightarrow> 'f node \<Rightarrow> 'f node list \<Rightarrow> ('f, fold_v) visited" where
  "fold_Array st old ns =
     (if length ns > 0 then
        (case literalValues ns of
           None \<Rightarrow> skip st
         | Some value \<Rightarrow> patch st old (ConstantNode base0 (VSlice value)))
      else skip st)"

text \<open>
  \<open>base.Arguments[0]\<close> and \<open>base.Arguments[1]\<close> are read without a check of the
  length of the inner filter's arguments: with fewer than two, Go panics.
\<close>

definition fold_Builtin :: "fold_v \<Rightarrow> 'f node \<Rightarrow> string \<Rightarrow> 'f node list \<Rightarrow> ('f, fold_v) visited" where
  "fold_Builtin st old name args =
     (if name = ''filter'' then
        (if length args \<noteq> 2 then skip st
         else
           (case args ! 0 of
              BuiltinNode bb bname bargs \<Rightarrow>
                if bname = ''filter'' then
                  (if length bargs < 2 then Inl ''runtime error: index out of range''
                   else patch st old
                     (BuiltinNode base0 ''filter''
                        [bargs ! 0, BinaryNode base0 ''&&'' (bargs ! 1) (args ! 1)]))
                else skip st
            | _ \<Rightarrow> skip st))
      else skip st)"

fun fold_Visit :: "'f float64_ops \<Rightarrow> nat \<Rightarrow> fold_v \<Rightarrow> 'f node \<Rightarrow> ('f, fold_v) visited" where
  "fold_Visit F w st (UnaryNode b op n) = fold_Unary F w st (UnaryNode b op n) op n"
| "fold_Visit F w st (BinaryNode b op l r) = fold_Binary F w st (BinaryNode b op l r) op l r"
| "fold_Visit F w st (ArrayNode b ns) = fold_Array st (ArrayNode b ns) ns"
| "fold_Visit F w st (BuiltinNode b name args) = fold_Builtin st (BuiltinNode b name args) name args"
| "fold_Visit F w st n = skip st"

section \<open>The tree walker (package ast)\<close>

text \<open>
  Modelled from the spec: \<open>ast.Walk\<close> is not among the source files. Section 4.1:
  ``The tree walker visits every node in pre-order, invoking a visitor callback with the
  handle; visitors may replace the current node, and on replacement the walker does NOT
  recurse into the replacement in the same pass.'' The children are walked from left to
  right, the state of the visitor is threaded through, and a nil node is not visited.
\<close>

definition andThen :: "'a panics \<Rightarrow> ('a \<Rightarrow> 'b panics) \<Rightarrow> 'b panics" where
  "andThen m k = (case m of Inl p \<Rightarrow> Inl p | Inr x \<Rightarrow> k x)"

fun Walk :: "('s \<Rightarrow> 'f node \<Rightarrow> ('f, 's) visited) \<Rightarrow> 'f node \<Rightarrow> 's \<Rightarrow> ('f node \<times> 's) panics"
  and WalkChildren :: "('s \<Rightarrow> 'f node \<Rightarrow> ('f, 's) visited) \<Rightarrow> 'f node \<Rightarrow> 's \<Rightarrow> ('f node \<times> 's) panics"
  and WalkList :: "('s \<Rightarrow> 'f node \<Rightarrow> ('f, 's) visited) \<Rightarrow> 'f node list \<Rightarrow> 's \<Rightarrow> ('f node list \<times> 's) panics"
where
  "Walk v n s =
     (if n = NoNode then Inr (n, s)
      else
        (case v s n of
           Inl p \<Rightarrow> Inl p
         | Inr (Some n', s') \<Rightarrow> Inr (n', s')
         | Inr (None, s') \<Rightarrow> WalkChildren v n s'))"
| "WalkChildren v (UnaryNode b op n) s =
     andThen (Walk v n s) (\<lambda>(n', s1). Inr (UnaryNode b op n', s1))"
| "WalkChildren v (BinaryNode b op l r) s =
     andThen (Walk v l s) (\<lambda>(l', s1).
     andThen (Walk v r s1) (\<lambda>(r', s2). Inr (BinaryNode b op l' r', s2)))"
| "WalkChildren v (ChainNode b n) s =
     andThen (Walk v n s) (\<lambda>(n', s1). Inr (ChainNode b n', s1))"
| "WalkChildren v (MemberNode b n p opt) s =
     andThen (Walk v n s) (\<lambda>(n', s1).
     andThen (Walk v p s1) (\<lambda>(p', s2). Inr (MemberNode b n' p' opt, s2)))"
| "WalkChildren v (SliceNode b n from to) s =
     andThen (Walk v n s) (\<lambda>(n', s1).
     andThen (Walk v from s1) (\<lambda>(from', s2).
     andThen (Walk v to s2) (\<lambda>(to', s3). Inr (SliceNode b n' from' to', s3))))"
| "WalkChildren v (CallNode b c args) s =
     andThen (Walk v c s) (\<lambda>(c', s1).
     andThen (WalkList v args s1) (\<lambda>(args', s2). Inr (CallNode b c' args', s2)))"
| "WalkChildren v (BuiltinNode b name args) s =
     andThen (WalkList v args s) (\<lambda>(args', s1). Inr (BuiltinNode b name args', s1))"
| "WalkChildren v (ClosureNode b n) s =
     andThen (Walk v n s) (\<lambda>(n', s1). Inr (ClosureNode b n', s1))"
| "WalkChildren v (ConditionalNode b c e1 e2) s =
     andThen (Walk v c s) (\<lambda>(c', s1).
     andThen (Walk v e1 s1) (\<lambda>(e1', s2).
     andThen (Walk v e2 s2) (\<lambda>(e2', s3). Inr (ConditionalNode b c' e1' e2', s3))))"
| "WalkChildren v (VariableDeclaratorNode b name val e) s =
     andThen (Walk v val s) (\<lambda>(val', s1).
     andThen (Walk v e s1) (\<lambda>(e', s2). Inr (VariableDeclaratorNode b name val' e', s2)))"
| "WalkChildren v (ArrayNode b ns) s =
     andThen (WalkList v ns s) (\<lambda>(ns', s1). Inr (ArrayNode b ns', s1))"
| "WalkChildren v (MapNode b ps) s =
     andThen (WalkList v ps s) (\<lambda>(ps', s1). Inr (MapNode b ps', s1))"
| "WalkChildren v (PairNode b k x) s =
     andThen (Walk v k s) (\<lambda>(k', s1).
     andThen (Walk v x s1) (\<lambda>(x', s2). Inr (PairNode b k' x', s2)))"
| "WalkChildren v n s = Inr (n, s)"
| "WalkList v [] s = Inr ([], s)"
| "WalkList v (n # ns) s =
     andThen (Walk v n s) (\<lambda>(n', s1).
     andThen (WalkList v ns s1) (\<lambda>(ns', s2). Inr (n' # ns', s2)))"

section \<open>The driver's fold loop (optimizer/optimizer.go)\<close>

datatype 'a outcome = Panic string | Failed error | Done 'a

text \<open>
  \<open>for limit := 1000; limit >= 0; limit-- { ... }\<close>: the first argument counts the
  iterations that are left, 1001 at the start. Each iteration walks with a fresh
  \<open>fold\<close>; an error ends \<open>Optimize\<close>, a walk without a patch ends the loop.
\<close>

fun foldLoop :: "'f float64_ops \<Rightarrow> nat \<Rightarrow> nat \<Rightarrow> 'f node \<Rightarrow> 'f node outcome" where
  "foldLoop F w 0 node = Done node"
| "foldLoop F w (Suc k) node =
     (case Walk (fold_Visit F w) node fold0 of
        Inl p \<Rightarrow> Panic p
      | Inr (node', st) \<Rightarrow>
          (case err st of
             Some e \<Rightarrow> Failed e
           | None \<Rightarrow> if \<not> applied st then Done node' else foldLoop F w k node'))"

section \<open>The constExpr pass (optimizer/const\_expr.go)\<close>

text \<open>
  A registered function is a \<open>reflect.Value\<close> that is called on the values of the
  arguments. The call panics (\<open>Panics\<close>, with the panic value printed by \<open>%v\<close>; this
  is also what \<open>reflect\<close> does when the arguments do not fit), returns one value, or
  returns a value and an \<open>error\<close> (nil or not).
\<close>

datatype 'f returned =
    Panics string
  | Returns "'f val"
  | ReturnsErr "'f val" "error option"

type_synonym 'f callable = "'f val list \<Rightarrow> 'f returned"

record 'f constExpr =
  cApplied :: bool
  cErr :: "error option"
  fns :: "(string \<times> 'f callable) list"

text \<open>\<open>strings.Replace(s, old, new, 1)\<close> for a non-empty \<open>old\<close>: the first occurrence.\<close>

fun Replace1 :: "string \<Rightarrow> string \<Rightarrow> string \<Rightarrow> string" where
  "Replace1 [] old new = []"
| "Replace1 (c # cs) old new =
     (if take (length old) (c # cs) = old then new @ drop (length old) (c # cs)
      else c # Replace1 cs old new)"

text \<open>The parameter of the call for a literal argument; \<open>None\<close> for any other node.\<close>

fun param :: "'f node \<Rightarrow> 'f val option" where
  "param (NilNode b) = Some VNil"
| "param (IntegerNode b i) = Some (VInt i)"
| "param (FloatNode b x) = Some (VFloat x)"
| "param (BoolNode b v) = Some (VBool v)"
| "param (StringNode b s) = Some (VString s)"
| "param (ConstantNode b v) = Some v"
| "param _ = None"

fun params :: "'f node list \<Rightarrow> 'f val list option" where
  "params [] = Some []"
| "params (a # as) =
     (case param a of
        None \<Rightarrow> None
      | Some v \<Rightarrow> (case params as of None \<Rightarrow> None | Some vs \<Rightarrow> Some (v # vs)))"

text \<open>
  The deferred \<open>recover\<close> turns a panic of the call into a \<open>file.Error\<close> at the
  location of the node, so \<open>Visit\<close> itself never panics.
\<close>

definition constExpr_call :: "'f constExpr \<Rightarrow> 'f node \<Rightarrow> 'f callable \<Rightarrow> 'f val list \<Rightarrow>
    ('f, 'f constExpr) visited" where
  "constExpr_call c node fn ins =
     (case fn ins of
        Panics r \<Rightarrow>
          Inr (None, c\<lparr>cErr := Some (FileError (Location node)
                 (Replace1 r ''runtime error:'' ''compile error:''))\<rparr>)
      | Returns value \<Rightarrow>
          Inr (Some (Patch node (ConstantNode base0 value)), c\<lparr>cApplied := True\<rparr>)
      | ReturnsErr value e \<Rightarrow>
          (case e of
             Some e' \<Rightarrow> Inr (None, c\<lparr>cErr := Some e'\<rparr>)
           | None \<Rightarrow> Inr (Some (Patch node (ConstantNode base0 value)), c\<lparr>cApplied := True\<rparr>)))"

fun constExpr_Visit :: "'f constExpr \<Rightarrow> 'f node \<Rightarrow> ('f, 'f constExpr) visited" where
  "constExpr_Visit c (CallNode b (IdentifierNode bn name) args) =
     (case map_of (fns c) name of
        Some fn \<Rightarrow>
          (case params args of
             None \<Rightarrow> skip c
           | Some ins \<Rightarrow> constExpr_call c (CallNode b (IdentifierNode bn name) args) fn ins)
      | None \<Rightarrow> skip c)"
| "constExpr_Visit c n = skip c"

section \<open>Optimize (optimizer/optimizer.go)\<close>

record 'f Config =
  Disabled :: "string \<Rightarrow> bool"
  ConstFns :: "(string \<times> 'f callable) list"

text \<open>
  The visitors \<open>inArray\<close>, \<open>inRange\<close>, \<open>constRange\<close>, \<open>filterMap\<close>, \<open>filterLen\<close>,
  \<open>filterLast\<close> and \<open>filterFirst\<close> are not among the source files. Each field is the
  whole walk of one of them.
\<close>

record 'f passes =
  inArray :: "'f node \<Rightarrow> 'f node"
  inRange :: "'f node \<Rightarrow> 'f node"
  constRange :: "'f node \<Rightarrow> 'f node"
  filterMap :: "'f node \<Rightarrow> 'f node"
  filterLen :: "'f node \<Rightarrow> 'f node"
  filterLast :: "'f node \<Rightarrow> 'f node"
  filterFirst :: "'f node \<Rightarrow> 'f node"

text \<open>\<open>for limit := 100; limit >= 0; limit-- { ... }\<close>, 101 iterations at most.\<close>

fun constExprLoop :: "(string \<times> 'f callable) list \<Rightarrow> nat \<Rightarrow> 'f node \<Rightarrow> 'f node outcome" where
  "constExprLoop fs 0 node = Done node"
| "constExprLoop fs (Suc k) node =
     (case Walk constExpr_Visit node \<lparr>cApplied = False, cErr = None, fns = fs\<rparr> of
        Inl p \<Rightarrow> Panic p
      | Inr (node', c) \<Rightarrow>
          (case cErr c of
             Some e \<Rightarrow> Failed e
           | None \<Rightarrow> if \<not> cApplied c then Done node' else constExprLoop fs k node'))"

text \<open>
  \<open>Optimize\<close> rewrites the tree in place and returns an error or nil: \<open>Done\<close> carries
  the tree as it is when nil is returned.
\<close>

definition Optimize :: "'f float64_ops \<Rightarrow> nat \<Rightarrow> 'f passes \<Rightarrow> 'f node \<Rightarrow> 'f Config option \<Rightarrow>
    'f node outcome" where
  "Optimize F w P node config =
     (case foldLoop F w 1001 (inArray P node) of
        Panic p \<Rightarrow> Panic p
      | Failed e \<Rightarrow> Failed e
      | Done node1 \<Rightarrow>
          (case (case config of
                   None \<Rightarrow> Done node1
                 | Some cfg \<Rightarrow>
                     if length (ConstFns cfg) > 0 then constExprLoop (ConstFns cfg) 101 node1
                     else Done node1) of
             Panic p \<Rightarrow> Panic p
           | Failed e \<Rightarrow> Failed e
           | Done node2 \<Rightarrow>
               Done (filterFirst P (filterLast P (filterLen P (filterMap P
                 (constRange P (inRange P node2))))))))"

section \<open>Tokens and what the parser takes from other packages\<close>

datatype kind = Identifier | Number | String | Operator | Bracket | EOF

record Token =
  Loc :: location
  Kind :: kind
  Value :: string

text \<open>\<open>Token.Is(kind, values...)\<close>: the kind, and one of the values when some are given.\<close>

definition Is :: "Token \<Rightarrow> kind \<Rightarrow> string list \<Rightarrow> bool" where
  "Is t k values = (if values = [] then k = Kind t else (Value t \<in> set values \<and> k = Kind t))"

datatype associativity = Left | Right

record operator =
  Precedence :: int
  Associativity :: associativity

text \<open>
  The lexer, the operator tables, the index of builtins, \<open>utils.IsValidIdentifier\<close>, the
  printing of a token by \<open>%v\<close>, \<open>strconv.ParseInt\<close> with base 0, \<open>strconv.ParseFloat\<close>
  and the width of the platform's \<open>int\<close> are not among the source files: the parser
  takes them from this record. The two \<open>strconv\<close> functions give the number and, when
  they fail, the text of the error.
\<close>

record 'f env =
  Lex :: "string \<Rightarrow> error + Token list"
  Binary :: "string \<Rightarrow> operator option"
  Unary :: "string \<Rightarrow> operator option"
  Index :: "string \<Rightarrow> nat option"
  IsValidIdentifier :: "string \<Rightarrow> bool"
  TokenString :: "Token \<Rightarrow> string"
  ParseInt0 :: "string \<Rightarrow> int \<times> string option"
  ParseFloat :: "string \<Rightarrow> 'f \<times> string option"
  IntSize :: nat

definition MaxInt :: "nat \<Rightarrow> int" where
  "MaxInt w = 2 ^ (w - 1) - 1"

definition predicates :: "string \<Rightarrow> nat option" where
  "predicates = map_of
     [(''all'', 2), (''none'', 2), (''any'', 2), (''one'', 2), (''filter'', 2), (''map'', 2),
      (''count'', 2), (''find'', 2), (''findIndex'', 2), (''findLast'', 2),
      (''findLastIndex'', 2), (''groupBy'', 2), (''reduce'', 3)]"

subsection \<open>\<open>strconv.ParseInt(s, 10, 64)\<close>\<close>

text \<open>
  Go's standard library: an optional sign, then decimal digits only. A character that is
  not a digit is a syntax error and the value is 0; a value outside of \<open>int64\<close> is a
  range error and the value is the nearest bound. The digits are read from the left, so
  the first of the two that is met decides. The text of the error names the function and
  quotes the input (\<open>Quote\<close> is exact for the characters a number token can have).
\<close>

datatype numError = ErrSyntax | ErrRange

definition digitVal :: "char \<Rightarrow> nat option" where
  "digitVal c =
     (if of_char (CHR ''0'') \<le> (of_char c :: nat) \<and> (of_char c :: nat) \<le> of_char (CHR ''9'')
      then Some (of_char c - of_char (CHR ''0'')) else None)"

fun ParseUint10 :: "nat \<Rightarrow> string \<Rightarrow> numError + nat" where
  "ParseUint10 n [] = Inr n"
| "ParseUint10 n (c # cs) =
     (case digitVal c of
        None \<Rightarrow> Inl ErrSyntax
      | Some d \<Rightarrow>
          if n \<ge> (2 ^ 64 - 1) div 10 + 1 then Inl ErrRange
          else if n * 10 + d > 2 ^ 64 - 1 then Inl ErrRange
          else ParseUint10 (n * 10 + d) cs)"

definition Quote :: "string \<Rightarrow> string" where
  "Quote s = CHR 0x22 # s @ [CHR 0x22]"

definition numErrorText :: "string \<Rightarrow> numError \<Rightarrow> string" where
  "numErrorText s e = ''strconv.ParseInt: parsing '' @ Quote s @ '': '' @
     (case e of ErrSyntax \<Rightarrow> ''invalid syntax'' | ErrRange \<Rightarrow> ''value out of range'')"

definition ParseInt10 :: "string \<Rightarrow> int \<times> string option" where
  "ParseInt10 s =
     (if s = [] then (0, Some (numErrorText s ErrSyntax))
      else
        (let neg = (hd s = CHR ''-'');
             s1 = (if hd s = CHR ''+'' \<or> hd s = CHR ''-'' then tl s else s)
         in
           (case (if s1 = [] then Inl ErrSyntax else ParseUint10 0 s1) of
              Inl ErrSyntax \<Rightarrow> (0, Some (numErrorText s ErrSyntax))
            | Inl ErrRange \<Rightarrow>
                (if neg then - (2 ^ 63) else 2 ^ 63 - 1, Some (numErrorText s ErrRange))
            | Inr un \<Rightarrow>
                if \<not> neg \<and> un \<ge> 2 ^ 63 then (2 ^ 63 - 1, Some (numErrorText s ErrRange))
                else if neg \<and> un > 2 ^ 63 then (- (2 ^ 63), Some (numErrorText s ErrRange))
                else (if neg then - int un else int un, None))))"

section \<open>The parser (parser/parser.go)\<close>

record 'f parser =
  tokens :: "Token list"
  current :: Token
  pos :: nat
  perr :: "error option"
  depth :: int
  config :: "'f Config option"

text \<open>Only the first error is kept.\<close>

definition errorAt :: "'f parser \<Rightarrow> Token \<Rightarrow> string \<Rightarrow> 'f parser" where
  "errorAt p token msg =
     (if perr p = None then p\<lparr>perr := Some (FileError (Some (Loc token)) msg)\<rparr> else p)"

definition error_p :: "'f parser \<Rightarrow> string \<Rightarrow> 'f parser" where
  "error_p p msg = errorAt p (current p) msg"

definition next_p :: "'f parser \<Rightarrow> 'f parser" where
  "next_p p =
     (let p1 = p\<lparr>pos := pos p + 1\<rparr> in
      if pos p1 \<ge> length (tokens p1) then error_p p1 ''unexpected end of expression''
      else p1\<lparr>current := tokens p1 ! pos p1\<rparr>)"

definition unexpected :: "'f env \<Rightarrow> Token \<Rightarrow> string" where
  "unexpected E t = ''unexpected token '' @ TokenString E t"

definition expect :: "'f env \<Rightarrow> 'f parser \<Rightarrow> kind \<Rightarrow> string list \<Rightarrow> 'f parser" where
  "expect E p k values =
     (if Is (current p) k values then next_p p else error_p p (unexpected E (current p)))"

text \<open>
  The parse functions call each other without a bound that is visible in the code, so each
  takes fuel: \<open>None\<close> is a call that has not returned within the fuel. A call that
  returns gives a node (or a list of nodes) and the new state of the parser, or panics.
\<close>

type_synonym ('a, 'f) parsed = "(('a \<times> 'f parser) panics) option"

definition ret :: "'a \<Rightarrow> 'f parser \<Rightarrow> ('a, 'f) parsed" where
  "ret a p = Some (Inr (a, p))"

definition bindP :: "('a, 'f) parsed \<Rightarrow> ('a \<Rightarrow> 'f parser \<Rightarrow> ('b, 'f) parsed) \<Rightarrow> ('b, 'f) parsed" where
  "bindP m k = (case m of None \<Rightarrow> None | Some (Inl x) \<Rightarrow> Some (Inl x) | Some (Inr (a, p)) \<Rightarrow> k a p)"

definition located :: "'f node \<Rightarrow> Token \<Rightarrow> 'f node" where
  "located n t = SetLocation n (Some (Loc t))"

definition coalesceMixed :: "string \<Rightarrow> string" where
  "coalesceMixed v = ''Operator ('' @ v @
     '') and coalesce expressions (??) cannot be mixed. Wrap either by parentheses.''"

text \<open>The text of a number token without its \<open>_\<close> separators, turned into a node.\<close>

definition parseNumber :: "'f env \<Rightarrow> Token \<Rightarrow> 'f parser \<Rightarrow> 'f node \<times> 'f parser" where
  "parseNumber E token p =
     (let value = filter (\<lambda>c. c \<noteq> CHR ''_'') (Value token) in
      if CHR ''x'' \<in> set value then
        (let (number, e) = ParseInt0 E value;
             p1 = (case e of Some m \<Rightarrow> error_p p (''invalid hex literal: '' @ m) | None \<Rightarrow> p)
         in if number > MaxInt (IntSize E) then (NoNode, error_p p1 ''integer literal is too large'')
            else (located (IntegerNode base0 (wrapInt (IntSize E) number)) token, p1))
      else if CHR ''.'' \<in> set value \<or> CHR ''e'' \<in> set value \<or> CHR ''E'' \<in> set value then
        (let (number, e) = ParseFloat E value;
             p1 = (case e of Some m \<Rightarrow> error_p p (''invalid float literal: '' @ m) | None \<Rightarrow> p)
         in (located (FloatNode base0 number) token, p1))
      else
        (let (number, e) = ParseInt10 value;
             p1 = (case e of Some m \<Rightarrow> error_p p (''invalid integer literal: '' @ m) | None \<Rightarrow> p)
         in if number > MaxInt (IntSize E) then (NoNode, error_p p1 ''integer literal is too large'')
            else (located (IntegerNode base0 (wrapInt (IntSize E) number)) token, p1)))"

text \<open>
  The parse functions call each other without a bound that is visible in the code. Each
  function is written here as in the source, with the functions it calls taken from the
  record \<open>R\<close>; \<open>parsers\<close> ties the knot with fuel: with no fuel left a call does not
  return (\<open>None\<close>), with fuel \<open>Suc n\<close> the calls of a body run with fuel \<open>n\<close>.

  The loops of the source are the functions \<open>parseExpression_loop\<close>,
  \<open>parseArray_loop\<close>, \<open>parseMap_loop\<close> and \<open>parseArguments_loop\<close>; the loops of
  \<open>parseConditional\<close> and \<open>parsePostfixExpression\<close> read the current token again at
  each turn, so there the function calls itself.
\<close>

record 'f calls =
  do_parseExpression :: "int \<Rightarrow> 'f parser \<Rightarrow> ('f node, 'f) parsed"
  do_parseExpression_loop :: "int \<Rightarrow> 'f node \<Rightarrow> string \<Rightarrow> Token \<Rightarrow> 'f parser \<Rightarrow> ('f node, 'f) parsed"
  do_parseVariableDeclaration :: "'f parser \<Rightarrow> ('f node, 'f) parsed"
  do_parseConditional :: "'f node \<Rightarrow> 'f parser \<Rightarrow> ('f node, 'f) parsed"
  do_parsePrimary :: "'f parser \<Rightarrow> ('f node, 'f) parsed"
  do_parseSecondary :: "'f parser \<Rightarrow> ('f node, 'f) parsed"
  do_parseCall :: "Token \<Rightarrow> 'f parser \<Rightarrow> ('f node, 'f) parsed"
  do_parseClosure :: "'f parser \<Rightarrow> ('f node, 'f) parsed"
  do_parseArrayExpression :: "Token \<Rightarrow> 'f parser \<Rightarrow> ('f node, 'f) parsed"
  do_parseArray_loop :: "'f node list \<Rightarrow> 'f parser \<Rightarrow> ('f node list, 'f) parsed"
  do_parseMapExpression :: "Token \<Rightarrow> 'f parser \<Rightarrow> ('f node, 'f) parsed"
  do_parseMap_loop :: "Token \<Rightarrow> 'f node list \<Rightarrow> 'f parser \<Rightarrow> ('f node list, 'f) parsed"
  do_parsePostfixExpression :: "'f node \<Rightarrow> 'f parser \<Rightarrow> ('f node, 'f) parsed"
  do_parsePipe :: "'f node \<Rightarrow> 'f parser \<Rightarrow> ('f node, 'f) parsed"
  do_parseArguments :: "'f parser \<Rightarrow> ('f node list, 'f) parsed"
  do_parseArguments_loop :: "'f node list \<Rightarrow> 'f parser \<Rightarrow> ('f node list, 'f) parsed"

definition parseExpression :: "'f calls \<Rightarrow> 'f env \<Rightarrow> int \<Rightarrow> 'f parser \<Rightarrow> ('f node, 'f) parsed" where
  "parseExpression R E precedence p =
     (if precedence = 0 \<and> Is (current p) Operator [''let''] then do_parseVariableDeclaration R p
      else
        bindP (do_parsePrimary R p) (\<lambda>nodeLeft p1.
        bindP (do_parseExpression_loop R precedence nodeLeft [] (current p1) p1) (\<lambda>nodeLeft p2.
          if precedence = 0 then do_parseConditional R nodeLeft p2 else ret nodeLeft p2)))"

definition parseExpression_loop :: "'f calls \<Rightarrow> 'f env \<Rightarrow> int \<Rightarrow> 'f node \<Rightarrow> string \<Rightarrow> Token \<Rightarrow> 'f parser \<Rightarrow> ('f node, 'f) parsed" where
  "parseExpression_loop R E precedence nodeLeft prevOperator opToken p =
     (if Is opToken Operator [] \<and> perr p = None then
        (let negate = Is opToken Operator [''not''];
             p1 = (if negate then next_p p else p);
             notToken = current p1;
             opToken = (if negate then current p1 else opToken)
         in
           (case Binary E (Value opToken) of
              None \<Rightarrow> ret nodeLeft p1
            | Some op \<Rightarrow>
                if Precedence op \<ge> precedence then
                  (let p2 = next_p p1 in
                   if Value opToken = ''|'' then
                     bindP (do_parsePipe R nodeLeft p2) (\<lambda>nodeLeft p3.
                       do_parseExpression_loop R precedence nodeLeft (Value opToken) (current p3) p3)
                   else if prevOperator = ''??'' \<and> Value opToken \<noteq> ''??''
                           \<and> \<not> Is opToken Bracket [''(''] then
                     ret nodeLeft (errorAt p2 opToken (coalesceMixed (Value opToken)))
                   else
                     bindP (do_parseExpression R
                              (if Associativity op = Left then Precedence op + 1 else Precedence op) p2)
                       (\<lambda>nodeRight p3.
                          (let binary = located (BinaryNode base0 (Value opToken) nodeLeft nodeRight) opToken;
                               nodeLeft = (if negate then located (UnaryNode base0 ''not'' binary) notToken
                                           else binary)
                           in do_parseExpression_loop R precedence nodeLeft (Value opToken)
                                (current p3) p3)))
                else ret nodeLeft p1))
      else ret nodeLeft p)"

definition parseVariableDeclaration :: "'f calls \<Rightarrow> 'f env \<Rightarrow> 'f parser \<Rightarrow> ('f node, 'f) parsed" where
  "parseVariableDeclaration R E p =
     (let p1 = expect E p Operator [''let''];
          variableName = current p1;
          p2 = expect E p1 Identifier [];
          p3 = expect E p2 Operator [''='']
      in
        bindP (do_parseExpression R 0 p3) (\<lambda>value p4.
        bindP (do_parseExpression R 0 (expect E p4 Operator ['';''])) (\<lambda>node p5.
          ret (located (VariableDeclaratorNode base0 (Value variableName) value node) variableName) p5)))"

definition parseConditional :: "'f calls \<Rightarrow> 'f env \<Rightarrow> 'f node \<Rightarrow> 'f parser \<Rightarrow> ('f node, 'f) parsed" where
  "parseConditional R E node p =
     (if Is (current p) Operator [''?''] \<and> perr p = None then
        (let p1 = next_p p in
         if \<not> Is (current p1) Operator ['':''] then
           bindP (do_parseExpression R 0 p1) (\<lambda>expr1 p2.
           bindP (do_parseExpression R 0 (expect E p2 Operator ['':''])) (\<lambda>expr2 p3.
             do_parseConditional R (ConditionalNode base0 node expr1 expr2) p3))
         else
           bindP (do_parseExpression R 0 (next_p p1)) (\<lambda>expr2 p3.
             do_parseConditional R (ConditionalNode base0 node node expr2) p3))
      else ret node p)"

definition parsePrimary :: "'f calls \<Rightarrow> 'f env \<Rightarrow> 'f parser \<Rightarrow> ('f node, 'f) parsed" where
  "parsePrimary R E p =
     (let token = current p in
      (case (if Is token Operator [] then Unary E (Value token) else None) of
         Some op \<Rightarrow>
           bindP (do_parseExpression R (Precedence op) (next_p p)) (\<lambda>expr p1.
             do_parsePostfixExpression R (located (UnaryNode base0 (Value token) expr) token) p1)
       | None \<Rightarrow>
           if Is token Bracket [''(''] then
             bindP (do_parseExpression R 0 (next_p p)) (\<lambda>expr p1.
               do_parsePostfixExpression R expr (expect E p1 Bracket ['')'']))
           else if depth p > 0 then
             (if Is token Operator [''#''] \<or> Is token Operator [''.''] then
                (let (name, p1) =
                       (if Is token Operator [''#''] then
                          (let p1 = next_p p in
                           if Is (current p1) Identifier [] then (Value (current p1), next_p p1)
                           else ([], p1))
                        else ([], p))
                 in do_parsePostfixExpression R (located (PointerNode base0 name) token) p1)
              else do_parseSecondary R p)
           else
             do_parseSecondary R
               (if Is token Operator [''#''] \<or> Is token Operator [''.'']
                then error_p p ''cannot use pointer accessor outside closure'' else p)))"

definition parseSecondary :: "'f calls \<Rightarrow> 'f env \<Rightarrow> 'f parser \<Rightarrow> ('f node, 'f) parsed" where
  "parseSecondary R E p =
     (let token = current p in
      (case Kind token of
         Identifier \<Rightarrow>
           (let p1 = next_p p in
            if Value token = ''true'' then ret (located (BoolNode base0 True) token) p1
            else if Value token = ''false'' then ret (located (BoolNode base0 False) token) p1
            else if Value token = ''nil'' then ret (located (NilNode base0) token) p1
            else bindP (do_parseCall R token p1) (\<lambda>node p2. do_parsePostfixExpression R node p2))
       | Number \<Rightarrow> (case parseNumber E token (next_p p) of (node, p1) \<Rightarrow> ret node p1)
       | String \<Rightarrow> ret (located (StringNode base0 (Value token)) token) (next_p p)
       | _ \<Rightarrow>
           if Is token Bracket [''[''] then
             bindP (do_parseArrayExpression R token p) (\<lambda>node p1. do_parsePostfixExpression R node p1)
           else if Is token Bracket [''{''] then
             bindP (do_parseMapExpression R token p) (\<lambda>node p1. do_parsePostfixExpression R node p1)
           else do_parsePostfixExpression R NoNode (error_p p (unexpected E token))))"

definition parseCall :: "'f calls \<Rightarrow> 'f env \<Rightarrow> Token \<Rightarrow> 'f parser \<Rightarrow> ('f node, 'f) parsed" where
  "parseCall R E token p =
     (if Is (current p) Bracket [''(''] then
        (case predicates (Value token) of
           Some arity \<Rightarrow>
             (let p1 = expect E p Bracket [''(''] in
              bindP
                (if arity = 1 then
                   bindP (do_parseExpression R 0 p1) (\<lambda>a0 p2. ret [a0] p2)
                 else if arity = 2 then
                   bindP (do_parseExpression R 0 p1) (\<lambda>a0 p2.
                   bindP (do_parseClosure R (expect E p2 Operator ['',''])) (\<lambda>a1 p3. ret [a0, a1] p3))
                 else ret [] p1)
                (\<lambda>arguments p2.
              bindP
                (if Value token = ''reduce'' then
                   bindP (do_parseExpression R 0 p2) (\<lambda>a0 p3.
                   bindP (do_parseClosure R (expect E p3 Operator ['',''])) (\<lambda>a1 p4.
                     if Is (current p4) Operator ['',''] then
                       bindP (do_parseExpression R 0 (next_p p4)) (\<lambda>a2 p5. ret [a0, a1, a2] p5)
                     else ret [a0, a1] p4))
                 else ret arguments p2)
                (\<lambda>arguments p3.
                   ret (located (BuiltinNode base0 (Value token) arguments) token)
                     (expect E p3 Bracket ['')'']))))
         | None \<Rightarrow>
             (case Index E (Value token) of
                Some i \<Rightarrow>
                  (case config p of
                     None \<Rightarrow> Some (Inl ''runtime error: invalid memory address or nil pointer dereference'')
                   | Some cfg \<Rightarrow>
                       if \<not> Disabled cfg (Value token) then
                         bindP (do_parseArguments R p) (\<lambda>arguments p1.
                           ret (located (BuiltinNode base0 (Value token) arguments) token) p1)
                       else
                         bindP (do_parseArguments R p) (\<lambda>arguments p1.
                           ret (located (CallNode base0 (located (IdentifierNode base0 (Value token)) token)
                                      arguments) token) p1))
              | None \<Rightarrow>
                  bindP (do_parseArguments R p) (\<lambda>arguments p1.
                    ret (located (CallNode base0 (located (IdentifierNode base0 (Value token)) token)
                               arguments) token) p1)))
      else ret (located (IdentifierNode base0 (Value token)) token) p)"

definition parseClosure :: "'f calls \<Rightarrow> 'f env \<Rightarrow> 'f parser \<Rightarrow> ('f node, 'f) parsed" where
  "parseClosure R E p =
     (let startToken = current p;
          expectClosingBracket = Is (current p) Bracket [''{''];
          p1 = (if expectClosingBracket then next_p p else p)
      in
        bindP (do_parseExpression R 0 (p1\<lparr>depth := depth p1 + 1\<rparr>)) (\<lambda>node p2.
          (let p3 = p2\<lparr>depth := depth p2 - 1\<rparr>;
               p4 = (if expectClosingBracket then expect E p3 Bracket [''}''] else p3)
           in ret (located (ClosureNode base0 node) startToken) p4)))"

definition parseArrayExpression :: "'f calls \<Rightarrow> 'f env \<Rightarrow> Token \<Rightarrow> 'f parser \<Rightarrow> ('f node, 'f) parsed" where
  "parseArrayExpression R E token p =
     bindP (do_parseArray_loop R [] (expect E p Bracket [''['']))  (\<lambda>nodes p1.
       ret (located (ArrayNode base0 nodes) token) (expect E p1 Bracket ['']'']))"

definition parseArray_loop :: "'f calls \<Rightarrow> 'f env \<Rightarrow> 'f node list \<Rightarrow> 'f parser \<Rightarrow> ('f node list, 'f) parsed" where
  "parseArray_loop R E nodes p =
     (if \<not> Is (current p) Bracket ['']''] \<and> perr p = None then
        (let p1 = (if length nodes > 0 then expect E p Operator ['',''] else p) in
         if length nodes > 0 \<and> Is (current p1) Bracket ['']''] then ret nodes p1
         else
           bindP (do_parseExpression R 0 p1) (\<lambda>node p2. do_parseArray_loop R (nodes @ [node]) p2))
      else ret nodes p)"

definition parseMapExpression :: "'f calls \<Rightarrow> 'f env \<Rightarrow> Token \<Rightarrow> 'f parser \<Rightarrow> ('f node, 'f) parsed" where
  "parseMapExpression R E token p =
     bindP (do_parseMap_loop R token [] (expect E p Bracket [''{''])) (\<lambda>nodes p1.
       ret (located (MapNode base0 nodes) token) (expect E p1 Bracket [''}'']))"

definition parseMap_loop :: "'f calls \<Rightarrow> 'f env \<Rightarrow> Token \<Rightarrow> 'f node list \<Rightarrow> 'f parser \<Rightarrow> ('f node list, 'f) parsed" where
  "parseMap_loop R E token nodes p =
     (if \<not> Is (current p) Bracket [''}''] \<and> perr p = None then
        (let p1 = (if length nodes > 0 then expect E p Operator ['',''] else p) in
         if length nodes > 0 \<and> Is (current p1) Bracket [''}''] then ret nodes p1
         else
           (let p2 = (if length nodes > 0 \<and> Is (current p1) Operator ['','']
                      then error_p p1 (unexpected E (current p1)) else p1)
            in
              bindP
                (if Is (current p2) Number [] \<or> Is (current p2) String []
                    \<or> Is (current p2) Identifier [] then
                   ret (located (StringNode base0 (Value (current p2))) token) (next_p p2)
                 else if Is (current p2) Bracket [''(''] then do_parseExpression R 0 p2
                 else
                   ret NoNode (error_p p2
                     (''a map key must be a quoted string, a number, a identifier, or an expression enclosed in parentheses (unexpected token ''
                        @ TokenString E (current p2) @ '')'')))
                (\<lambda>key p3.
              bindP (do_parseExpression R 0 (expect E p3 Operator ['':''])) (\<lambda>node p4.
                do_parseMap_loop R token (nodes @ [located (PairNode base0 key node) token]) p4))))
      else ret nodes p)"

definition parsePostfixExpression :: "'f calls \<Rightarrow> 'f env \<Rightarrow> 'f node \<Rightarrow> 'f parser \<Rightarrow> ('f node, 'f) parsed" where
  "parsePostfixExpression R E node p =
     (let postfixToken = current p in
      if (Is postfixToken Operator [] \<or> Is postfixToken Bracket []) \<and> perr p = None then
        (if Value postfixToken = ''.'' \<or> Value postfixToken = ''?.'' then
           (let p1 = next_p p;
                propertyToken = current p1;
                p2 = next_p p1;
                p3 = (if Kind propertyToken \<noteq> Identifier
                         \<and> (Kind propertyToken \<noteq> Operator
                              \<or> \<not> IsValidIdentifier E (Value propertyToken))
                      then error_p p2 ''expected name'' else p2);
                property = located (StringNode base0 (Value propertyToken)) propertyToken;
                isChain = (case node of ChainNode b inner \<Rightarrow> True | _ \<Rightarrow> False);
                optional = (Value postfixToken = ''?.'');
                node1 = (case node of ChainNode b inner \<Rightarrow> inner | _ \<Rightarrow> node);
                memberNode = located (MemberNode base0 node1 property optional) propertyToken
            in
              bindP
                (if Is (current p3) Bracket [''(''] then
                   bindP (do_parseArguments R p3) (\<lambda>arguments p4.
                     ret (located (CallNode base0 memberNode arguments) propertyToken) p4)
                 else ret memberNode p3)
                (\<lambda>node2 p4.
                   do_parsePostfixExpression R
                     (if isChain \<or> optional then ChainNode base0 node2 else node2) p4))
         else if Value postfixToken = ''['' then
           (let p1 = next_p p in
            if Is (current p1) Operator ['':''] then
              (let p2 = next_p p1 in
               bindP (if \<not> Is (current p2) Bracket ['']''] then do_parseExpression R 0 p2
                      else ret NoNode p2)
                 (\<lambda>to p3.
                    do_parsePostfixExpression R (located (SliceNode base0 node NoNode to) postfixToken)
                      (expect E p3 Bracket ['']''])))
            else
              bindP (do_parseExpression R 0 p1) (\<lambda>from p2.
                if Is (current p2) Operator ['':''] then
                  (let p3 = next_p p2 in
                   bindP (if \<not> Is (current p3) Bracket ['']''] then do_parseExpression R 0 p3
                          else ret NoNode p3)
                     (\<lambda>to p4.
                        do_parsePostfixExpression R (located (SliceNode base0 node from to) postfixToken)
                          (expect E p4 Bracket ['']''])))
                else
                  do_parsePostfixExpression R (located (MemberNode base0 node from False) postfixToken)
                    (expect E p2 Bracket ['']''])))
         else ret node p)
      else ret node p)"

definition parsePipe :: "'f calls \<Rightarrow> 'f env \<Rightarrow> 'f node \<Rightarrow> 'f parser \<Rightarrow> ('f node, 'f) parsed" where
  "parsePipe R E node p =
     (let identifier = current p;
          p1 = expect E p Identifier []
      in
        (case predicates (Value identifier) of
           Some arity \<Rightarrow>
             (let p2 = expect E p1 Bracket [''(''] in
              bindP
                (if arity = 2 then bindP (do_parseClosure R p2) (\<lambda>a1 p3. ret [node, a1] p3)
                 else ret [node] p2)
                (\<lambda>arguments p3.
              bindP
                (if Value identifier = ''reduce'' then
                   bindP (do_parseClosure R p3) (\<lambda>a1 p4.
                     if Is (current p4) Operator ['',''] then
                       bindP (do_parseExpression R 0 (next_p p4)) (\<lambda>a2 p5.
                         ret (arguments @ [a1, a2]) p5)
                     else ret (arguments @ [a1]) p4)
                 else ret arguments p3)
                (\<lambda>arguments p4.
                   ret (located (BuiltinNode base0 (Value identifier) arguments) identifier)
                     (expect E p4 Bracket ['')'']))))
         | None \<Rightarrow>
             (case Index E (Value identifier) of
                Some i \<Rightarrow>
                  bindP (do_parseArguments R p1) (\<lambda>arguments p2.
                    ret (located (BuiltinNode base0 (Value identifier) (node # arguments)) identifier) p2)
              | None \<Rightarrow>
                  bindP (do_parseArguments R p1) (\<lambda>arguments p2.
                    ret (located (CallNode base0 (located (IdentifierNode base0 (Value identifier)) identifier)
                               (node # arguments)) identifier) p2))))"

definition parseArguments :: "'f calls \<Rightarrow> 'f env \<Rightarrow> 'f parser \<Rightarrow> ('f node list, 'f) parsed" where
  "parseArguments R E p =
     bindP (do_parseArguments_loop R [] (expect E p Bracket [''(''])) (\<lambda>nodes p1.
       ret nodes (expect E p1 Bracket ['')'']))"

definition parseArguments_loop :: "'f calls \<Rightarrow> 'f env \<Rightarrow> 'f node list \<Rightarrow> 'f parser \<Rightarrow> ('f node list, 'f) parsed" where
  "parseArguments_loop R E nodes p =
     (if \<not> Is (current p) Bracket ['')''] \<and> perr p = None then
        (let p1 = (if length nodes > 0 then expect E p Operator ['',''] else p) in
         bindP (do_parseExpression R 0 p1) (\<lambda>node p2. do_parseArguments_loop R (nodes @ [node]) p2))
      else ret nodes p)"

definition noFuel :: "'f calls" where
  "noFuel = \<lparr>
     do_parseExpression = (\<lambda>_ _. None),
     do_parseExpression_loop = (\<lambda>_ _ _ _ _. None),
     do_parseVariableDeclaration = (\<lambda>_. None),
     do_parseConditional = (\<lambda>_ _. None),
     do_parsePrimary = (\<lambda>_. None),
     do_parseSecondary = (\<lambda>_. None),
     do_parseCall = (\<lambda>_ _. None),
     do_parseClosure = (\<lambda>_. None),
     do_parseArrayExpression = (\<lambda>_ _. None),
     do_parseArray_loop = (\<lambda>_ _. None),
     do_parseMapExpression = (\<lambda>_ _. None),
     do_parseMap_loop = (\<lambda>_ _ _. None),
     do_parsePostfixExpression = (\<lambda>_ _. None),
     do_parsePipe = (\<lambda>_ _. None),
     do_parseArguments = (\<lambda>_. None),
     do_parseArguments_loop = (\<lambda>_ _. None)\<rparr>"

primrec parsers :: "nat \<Rightarrow> 'f env \<Rightarrow> 'f calls" where
  "parsers 0 E = noFuel"
| "parsers (Suc n) E = \<lparr>
     do_parseExpression = parseExpression (parsers n E) E,
     do_parseExpression_loop = parseExpression_loop (parsers n E) E,
     do_parseVariableDeclaration = parseVariableDeclaration (parsers n E) E,
     do_parseConditional = parseConditional (parsers n E) E,
     do_parsePrimary = parsePrimary (parsers n E) E,
     do_parseSecondary = parseSecondary (parsers n E) E,
     do_parseCall = parseCall (parsers n E) E,
     do_parseClosure = parseClosure (parsers n E) E,
     do_parseArrayExpression = parseArrayExpression (parsers n E) E,
     do_parseArray_loop = parseArray_loop (parsers n E) E,
     do_parseMapExpression = parseMapExpression (parsers n E) E,
     do_parseMap_loop = parseMap_loop (parsers n E) E,
     do_parsePostfixExpression = parsePostfixExpression (parsers n E) E,
     do_parsePipe = parsePipe (parsers n E) E,
     do_parseArguments = parseArguments (parsers n E) E,
     do_parseArguments_loop = parseArguments_loop (parsers n E) E\<rparr>"

text \<open>
  \<open>ParseWithConfig\<close>: \<open>Done\<close> carries the node of the tree, \<open>Failed\<close> the first error
  (\<open>Bind\<close> adds a snippet of the source to it, which leaves its location and message as
  they are). \<open>tokens[0]\<close> panics when the lexer gives no token at all.
\<close>

definition ParseWithConfig :: "nat \<Rightarrow> 'f env \<Rightarrow> string \<Rightarrow> 'f Config option \<Rightarrow> 'f node outcome option" where
  "ParseWithConfig fuel E input cfg =
     (case Lex E input of
        Inl e \<Rightarrow> Some (Failed e)
      | Inr toks \<Rightarrow>
          if toks = [] then Some (Panic ''runtime error: index out of range [0] with length 0'')
          else
            (case do_parseExpression (parsers fuel E) 0
                    \<lparr>tokens = toks, current = toks ! 0, pos = 0, perr = None, depth = 0,
                     config = cfg\<rparr> of
               None \<Rightarrow> None
             | Some (Inl x) \<Rightarrow> Some (Panic x)
             | Some (Inr (node, p)) \<Rightarrow>
                 (let p1 = (if \<not> Is (current p) EOF [] then error_p p (unexpected E (current p))
                            else p)
                  in (case perr p1 of Some e \<Rightarrow> Some (Failed e) | None \<Rightarrow> Some (Done node)))))"

definition Parse :: "nat \<Rightarrow> 'f env \<Rightarrow> string \<Rightarrow> 'f node outcome option" where
  "Parse fuel E input = ParseWithConfig fuel E input (Some \<lparr>Disabled = (\<lambda>name. False), ConstFns = []\<rparr>)"

section \<open>An environment for the examples\<close>

text \<open>
  Modelled from the spec: the operator tables (package parser/operator), the index of
  builtins and the lexer are not among the source files, and the spec gives the shape of
  the tables only (section 2: static maps of precedence and associativity). The example
  environment has the operators that sections 4.2 to 4.4 of the spec name, with the usual
  order of precedence (\<open>|\<close> lowest, then \<open>or\<close>, \<open>and\<close>, the comparisons, \<open>+\<close> and
  \<open>-\<close>, \<open>*\<close>, \<open>/\<close> and \<open>%\<close>, the right-associative powers, and \<open>??\<close> highest), a
  few builtins, and as lexer a table of the token sequences of the inputs used below
  (kind, value, byte offset; \<open>EOF\<close> at the end). Real numbers stand for \<open>float64\<close>;
  no example depends on the value of a float operation. Only witnesses and
  counterexamples use these definitions.
\<close>

definition tok :: "kind \<Rightarrow> string \<Rightarrow> location \<Rightarrow> Token" where
  "tok k v l = \<lparr>Loc = l, Kind = k, Value = v\<rparr>"

definition opr :: "int \<Rightarrow> associativity \<Rightarrow> operator" where
  "opr prec a = \<lparr>Precedence = prec, Associativity = a\<rparr>"

definition exampleBinary :: "string \<Rightarrow> operator option" where
  "exampleBinary = map_of
     [(''|'', opr 0 Left), (''or'', opr 10 Left), (''||'', opr 10 Left),
      (''and'', opr 15 Left), (''&&'', opr 15 Left),
      (''=='', opr 20 Left), (''!='', opr 20 Left), (''<'', opr 20 Left), (''>'', opr 20 Left),
      (''>='', opr 20 Left), (''<='', opr 20 Left), (''in'', opr 20 Left),
      (''..'', opr 25 Left), (''+'', opr 30 Left), (''-'', opr 30 Left),
      (''*'', opr 60 Left), (''/'', opr 60 Left), (''%'', opr 60 Left),
      (''**'', opr 100 Right), (''^'', opr 100 Right), (''??'', opr 500 Left)]"

definition exampleUnary :: "string \<Rightarrow> operator option" where
  "exampleUnary = map_of
     [(''not'', opr 50 Left), (''!'', opr 50 Left), (''-'', opr 90 Left), (''+'', opr 90 Left)]"

definition exampleIndex :: "string \<Rightarrow> nat option" where
  "exampleIndex = map_of [(''len'', 0), (''filter'', 1), (''first'', 2), (''last'', 3)]"

fun kindName :: "kind \<Rightarrow> string" where
  "kindName Identifier = ''Identifier''"
| "kindName Number = ''Number''"
| "kindName String = ''String''"
| "kindName Operator = ''Operator''"
| "kindName Bracket = ''Bracket''"
| "kindName EOF = ''EOF''"

definition exampleTokenString :: "Token \<Rightarrow> string" where
  "exampleTokenString t =
     (if Value t = [] then kindName (Kind t) else kindName (Kind t) @ ''('' @ Quote (Value t) @ '')'')"

definition exampleSources :: "(string \<times> Token list) list" where
  "exampleSources =
     [(''true && (1 < 2)'',
         [tok Identifier ''true'' 0, tok Operator ''&&'' 5, tok Bracket ''('' 8, tok Number ''1'' 9,
          tok Operator ''<'' 11, tok Number ''2'' 13, tok Bracket '')'' 14, tok EOF [] 15]),
      (''(1 + 2) + 3'',
         [tok Bracket ''('' 0, tok Number ''1'' 1, tok Operator ''+'' 3, tok Number ''2'' 5,
          tok Bracket '')'' 6, tok Operator ''+'' 8, tok Number ''3'' 10, tok EOF [] 11]),
      (''10 % 0'',
         [tok Number ''10'' 0, tok Operator ''%'' 3, tok Number ''0'' 5, tok EOF [] 6]),
      (''a ?? b + c'',
         [tok Identifier ''a'' 0, tok Operator ''??'' 2, tok Identifier ''b'' 5,
          tok Operator ''+'' 7, tok Identifier ''c'' 9, tok EOF [] 10]),
      (''a ?? b | f()'',
         [tok Identifier ''a'' 0, tok Operator ''??'' 2, tok Identifier ''b'' 5,
          tok Operator ''|'' 7, tok Identifier ''f'' 9, tok Bracket ''('' 10, tok Bracket '')'' 11,
          tok EOF [] 12]),
      (''9223372036854775808'', [tok Number ''9223372036854775808'' 0, tok EOF [] 19]),
      (''2147483648'', [tok Number ''2147483648'' 0, tok EOF [] 10]),
      (''len(x)'',
         [tok Identifier ''len'' 0, tok Bracket ''('' 3, tok Identifier ''x'' 4, tok Bracket '')'' 5,
          tok EOF [] 6]),
      (''x | len()'',
         [tok Identifier ''x'' 0, tok Operator ''|'' 2, tok Identifier ''len'' 4,
          tok Bracket ''('' 7, tok Bracket '')'' 8, tok EOF [] 9])]"

definition exampleLex :: "string \<Rightarrow> error + Token list" where
  "exampleLex input =
     (case map_of exampleSources input of
        Some toks \<Rightarrow> Inr toks
      | None \<Rightarrow> Inl (OtherError ''not an input of the examples''))"

definition exampleEnv :: "nat \<Rightarrow> real env" where
  "exampleEnv w =
     \<lparr>Lex = exampleLex, Binary = exampleBinary, Unary = exampleUnary, Index = exampleIndex,
      IsValidIdentifier = (\<lambda>s. s \<noteq> []), TokenString = exampleTokenString,
      ParseInt0 = (\<lambda>s. (0, Some (numErrorText s ErrSyntax))),
      ParseFloat = (\<lambda>s. (0, Some ''strconv.ParseFloat: not in the examples'')),
      IntSize = w\<rparr>"

definition exampleFloat :: "real float64_ops" where
  "exampleFloat =
     \<lparr>fneg = uminus, fadd = (+), fsub = (-), fmul = (*), fdiv = (/), Pow = (powr),
      float64 = of_int\<rparr>"

definition examplePasses :: "real passes" where
  "examplePasses =
     \<lparr>inArray = (\<lambda>n. n), inRange = (\<lambda>n. n), constRange = (\<lambda>n. n), filterMap = (\<lambda>n. n),
      filterLen = (\<lambda>n. n), filterLast = (\<lambda>n. n), filterFirst = (\<lambda>n. n)\<rparr>"

section \<open>Unfolding the fuel\<close>

lemma calls_Suc:
  "do_parseExpression (parsers (Suc n) E) = parseExpression (parsers n E) E"
  "do_parseExpression_loop (parsers (Suc n) E) = parseExpression_loop (parsers n E) E"
  "do_parseVariableDeclaration (parsers (Suc n) E) = parseVariableDeclaration (parsers n E) E"
  "do_parseConditional (parsers (Suc n) E) = parseConditional (parsers n E) E"
  "do_parsePrimary (parsers (Suc n) E) = parsePrimary (parsers n E) E"
  "do_parseSecondary (parsers (Suc n) E) = parseSecondary (parsers n E) E"
  "do_parseCall (parsers (Suc n) E) = parseCall (parsers n E) E"
  "do_parseClosure (parsers (Suc n) E) = parseClosure (parsers n E) E"
  "do_parseArrayExpression (parsers (Suc n) E) = parseArrayExpression (parsers n E) E"
  "do_parseArray_loop (parsers (Suc n) E) = parseArray_loop (parsers n E) E"
  "do_parseMapExpression (parsers (Suc n) E) = parseMapExpression (parsers n E) E"
  "do_parseMap_loop (parsers (Suc n) E) = parseMap_loop (parsers n E) E"
  "do_parsePostfixExpression (parsers (Suc n) E) = parsePostfixExpression (parsers n E) E"
  "do_parsePipe (parsers (Suc n) E) = parsePipe (parsers n E) E"
  "do_parseArguments (parsers (Suc n) E) = parseArguments (parsers n E) E"
  "do_parseArguments_loop (parsers (Suc n) E) = parseArguments_loop (parsers n E) E"
  by simp_all

lemma calls_numeral:
  "do_parseExpression (parsers (numeral k) E) = parseExpression (parsers (pred_numeral k) E) E"
  "do_parseExpression_loop (parsers (numeral k) E) = parseExpression_loop (parsers (pred_numeral k) E) E"
  "do_parseVariableDeclaration (parsers (numeral k) E) = parseVariableDeclaration (parsers (pred_numeral k) E) E"
  "do_parseConditional (parsers (numeral k) E) = parseConditional (parsers (pred_numeral k) E) E"
  "do_parsePrimary (parsers (numeral k) E) = parsePrimary (parsers (pred_numeral k) E) E"
  "do_parseSecondary (parsers (numeral k) E) = parseSecondary (parsers (pred_numeral k) E) E"
  "do_parseCall (parsers (numeral k) E) = parseCall (parsers (pred_numeral k) E) E"
  "do_parseClosure (parsers (numeral k) E) = parseClosure (parsers (pred_numeral k) E) E"
  "do_parseArrayExpression (parsers (numeral k) E) = parseArrayExpression (parsers (pred_numeral k) E) E"
  "do_parseArray_loop (parsers (numeral k) E) = parseArray_loop (parsers (pred_numeral k) E) E"
  "do_parseMapExpression (parsers (numeral k) E) = parseMapExpression (parsers (pred_numeral k) E) E"
  "do_parseMap_loop (parsers (numeral k) E) = parseMap_loop (parsers (pred_numeral k) E) E"
  "do_parsePostfixExpression (parsers (numeral k) E) = parsePostfixExpression (parsers (pred_numeral k) E) E"
  "do_parsePipe (parsers (numeral k) E) = parsePipe (parsers (pred_numeral k) E) E"
  "do_parseArguments (parsers (numeral k) E) = parseArguments (parsers (pred_numeral k) E) E"
  "do_parseArguments_loop (parsers (numeral k) E) = parseArguments_loop (parsers (pred_numeral k) E) E"
  by (simp_all add: numeral_eq_Suc)

section \<open>The fold pass on single nodes\<close>

text \<open>
  C7. For every Builtin node \<open>filter(filter(src, P), Q)\<close> (the outer filter has exactly
  two arguments, the first of them is itself a filter builtin with the arguments \<open>src\<close>
  and \<open>P\<close>), the visit of the fold pass replaces the node by the single Builtin
  \<open>filter(src, R)\<close>, where \<open>R\<close> is the Binary node with operator \<open>&&\<close>, left child
  \<open>P\<close> and right child \<open>Q\<close>, and records that a patch was applied. The new node
  takes the location of the node it replaces.
\<close>

theorem fold_fuses_nested_filter:
  "fold_Visit F w st (BuiltinNode b ''filter'' [BuiltinNode bi ''filter'' [src, P], Q]) =
     Inr (Some (BuiltinNode \<lparr>loc = loc b, nodeType = None\<rparr> ''filter''
                  [src, BinaryNode \<lparr>loc = None, nodeType = None\<rparr> ''&&'' P Q]),
          st\<lparr>applied := True\<rparr>)"
  by (simp add: fold_Builtin_def patch_def Patch_def Location_def SetLocation_def base0_def)

end
